theory Spec2Isabelle
  imports Main "HOL-Library.AList" "HOL-Library.Sublist"
begin

section \<open>BrowserHistory: pop handling\<close>

text \<open>
  The fields of the \<^verbatim>\<open>BrowserHistory\<close> object that \<^verbatim>\<open>handlePop\<close>, \<^verbatim>\<open>_forceGo\<close>
  and the \<^verbatim>\<open>revertPop\<close> closures read and write, together with a log of the calls they
  make on the outside world: \<^verbatim>\<open>window.history.go(n)\<close> and \<^verbatim>\<open>this.jump(...)\<close> (the gate,
  defined in the base class \<^verbatim>\<open>History\<close>).

  \<open>hid\<close> is \<^verbatim>\<open>this._id\<close>; \<open>url\<close> and \<open>prevUrl\<close> are maintained by the base class.

  Every \<^verbatim>\<open>revertPop\<close> closure captures the delta \<^verbatim>\<open>n\<close> and owns a variable
  \<^verbatim>\<open>reverted\<close>; the closures live in a store indexed by creation order.
\<close>

datatype kind = Back | Next

record closure =
  cl_n :: int
  cl_reverted :: bool

record jump_call =
  jc_n :: int
  jc_kind :: kind
  jc_revertPop :: nat

record browser_history =
  popForced :: bool
  pendingPop :: "int option"
  url :: string
  prevUrl :: string
  hid :: string
  go_calls :: "int list"
  jump_calls :: "jump_call list"
  closures :: "closure list"

text \<open>\<^verbatim>\<open>!this.pendingPop\<close>: undefined, null and 0 are falsy.\<close>

definition pendingPop_falsy :: "browser_history \<Rightarrow> bool" where
  "pendingPop_falsy s = (case pendingPop s of None \<Rightarrow> True | Some p \<Rightarrow> p = 0)"

text \<open>
  \<^verbatim>\<open>_forceGo(n) { this._popForced = true; window.history.go(n) }\<close>
\<close>

definition forceGo :: "int \<Rightarrow> browser_history \<Rightarrow> browser_history" where
  "forceGo n s = s\<lparr>popForced := True, go_calls := go_calls s @ [n]\<rparr>"

text \<open>
  \<^verbatim>\<open>handlePop(loc)\<close>. The argument \<open>isNext\<close> stands for \<^verbatim>\<open>this._isNext\<close> of the base
  class; \<open>loc\<close> is \<^verbatim>\<open>loc.location.url\<close>. The first pop creates a \<^verbatim>\<open>revertPop\<close> closure
  and hands it to \<^verbatim>\<open>this.jump(n, undefined, false, kind, true, revertPop)\<close>.
\<close>

definition handlePop ::
  "(browser_history \<Rightarrow> string \<Rightarrow> bool) \<Rightarrow> browser_history \<Rightarrow> string \<Rightarrow> browser_history" where
  "handlePop isNext s loc =
     (if popForced s then s\<lparr>popForced := False\<rparr>
      else if pendingPop_falsy s then
        (let n = (if isNext s loc then 1 else - 1);
             s1 = s\<lparr>pendingPop := Some n\<rparr>;
             knd = (if n = - 1 then Back else Next);
             i = length (closures s1);
             s2 = s1\<lparr>closures := closures s1 @ [\<lparr>cl_n = n, cl_reverted = False\<rparr>]\<rparr>
         in s2\<lparr>jump_calls := jump_calls s2 @ [\<lparr>jc_n = n, jc_kind = knd, jc_revertPop = i\<rparr>]\<rparr>)
      else if loc = url s then
        (let n = the (pendingPop s) * - 1 in forceGo (n * - 1) s)
      else
        (let n = the (pendingPop s) in forceGo (n * - 1) s))"


text \<open>An engine at entry 5 with nothing pending, for the scenarios below.\<close>

definition idle5 :: browser_history where
  "idle5 = \<lparr>popForced = False, pendingPop = None, url = ''/5'', prevUrl = ''/5'',
            hid = ''s1'', go_calls = [],
            jump_calls = [], closures = []\<rparr>"

definition isNext5 :: "browser_history \<Rightarrow> string \<Rightarrow> bool" where
  "isNext5 s u = (u = ''/6'')"

section \<open>BrowserHistory: native push, replace and jump\<close>

text \<open>
  The methods \<^verbatim>\<open>_push\<close>, \<^verbatim>\<open>_replace\<close>, \<^verbatim>\<open>_jump\<close>, \<^verbatim>\<open>_forceGo\<close> and \<^verbatim>\<open>_awaitLocation\<close>
  keep their names without the underscore. They return promise chains. A chain is modelled
  by the sequence of native operations it performs, in the order the \<^verbatim>\<open>.then\<close> callbacks run:
  \<^verbatim>\<open>_awaitLocation(actOrUrl, name)\<close>, \<^verbatim>\<open>_forceGo(n)\<close>,
  \<^verbatim>\<open>window.history.replaceState({id, key, state}, null, url)\<close> and
  \<^verbatim>\<open>window.history.pushState({id, key, state}, null, url)\<close>.
\<close>

record 'st action =
  a_state :: 'st
  a_key :: string
  a_url :: string

datatype 'st actOrUrl = AUrl string | AAct "'st action"

datatype 'st native =
    Await string "string option"
  | ForceGo int
  | ReplaceState string string 'st string
  | PushState string string 'st string

text \<open>\<^verbatim>\<open>awaitLoc || this.prevUrl\<close>: undefined and the empty string are falsy.\<close>

definition orPrevUrl :: "'st actOrUrl option \<Rightarrow> browser_history \<Rightarrow> 'st actOrUrl" where
  "orPrevUrl awaitLoc this =
     (case awaitLoc of
        None \<Rightarrow> AUrl (prevUrl this)
      | Some (AUrl u) \<Rightarrow> (if u = [] then AUrl (prevUrl this) else AUrl u)
      | Some (AAct a) \<Rightarrow> AAct a)"

definition awaitLocation :: "'st actOrUrl \<Rightarrow> string option \<Rightarrow> 'st native" where
  "awaitLocation actOrUrl name =
     Await (case actOrUrl of AUrl u \<Rightarrow> u | AAct a \<Rightarrow> a_url a) name"

definition push :: "browser_history \<Rightarrow> 'st action \<Rightarrow> 'st actOrUrl option \<Rightarrow> 'st native list" where
  "push this action awaitLoc =
     [awaitLocation (orPrevUrl awaitLoc this) (Some ''_push''),
      PushState (hid this) (a_key action) (a_state action) (a_url action)]"

text \<open>\<^verbatim>\<open>_replace(action, awaitLoc, n)\<close>; \<^verbatim>\<open>if (n)\<close> fails for undefined and for 0.\<close>

definition replace ::
  "browser_history \<Rightarrow> 'st action \<Rightarrow> 'st actOrUrl option \<Rightarrow> int option \<Rightarrow> 'st native list" where
  "replace this action awaitLoc n =
     (if n \<noteq> None \<and> n \<noteq> Some 0 then
        [ForceGo (the n),
         awaitLocation (orPrevUrl awaitLoc this) (Some ''_replaceBackNext''),
         ReplaceState (hid this) (a_key action) (a_state action) (a_url action)]
      else
        [awaitLocation (orPrevUrl awaitLoc this) (Some ''_replace''),
         ReplaceState (hid this) (a_key action) (a_state action) (a_url action)])"

definition jump :: "browser_history \<Rightarrow> 'st action \<Rightarrow> int \<Rightarrow> bool \<Rightarrow> 'st native list" where
  "jump this action n isPop =
     (if n = 0 then replace this action None None
      else if isPop then []
      else [awaitLocation (AUrl (prevUrl this)) (Some ''jump prev''), ForceGo n,
            awaitLocation (AAct action) (Some ''jump loc'')]
           @ replace this action (Some (AAct action)) None)"

section \<open>The retry queue of the browser-settle workaround\<close>

text \<open>
  Module state: \<^verbatim>\<open>tries\<close> and \<^verbatim>\<open>queue\<close>. The model adds what the functions act on:
  the timers set by \<^verbatim>\<open>setTimeout\<close> (delay and callback argument, in the order set),
  the browser's location, the log of \<^verbatim>\<open>complete()\<close> calls, and the log of attempts
  (one entry, the wait's promise, per call of \<^verbatim>\<open>rapidChangeWorkaround\<close>).

  A wait is the triple \<^verbatim>\<open>[ready, complete, name]\<close>: \<open>w_ready\<close> is evaluated on the
  browser's location (for \<^verbatim>\<open>_awaitLocation\<close> it is
  \<^verbatim>\<open>url === locationToUrl(window.location)\<close>), \<open>w_complete\<close> identifies the promise
  that \<^verbatim>\<open>complete\<close> resolves.
\<close>

record wait =
  w_ready :: "string \<Rightarrow> bool"
  w_complete :: nat
  w_name :: "string option"

record retry_state =
  tries :: nat
  queue :: "wait list"
  timers :: "(nat \<times> wait) list"
  location :: string
  completed :: "nat list"
  attempts :: "nat list"

datatype settle_error = NotReady

definition maxTries :: nat where
  "maxTries = 10"

text \<open>
  \<open>test\<close> is \<^verbatim>\<open>process.env.NODE_ENV === 'test'\<close>. A throw leaves the module state as it
  is at that point; it is returned with the error.
\<close>

function rapidChangeWorkaround ::
  "bool \<Rightarrow> wait \<Rightarrow> retry_state \<Rightarrow> (settle_error \<times> retry_state) + retry_state" where
  "rapidChangeWorkaround test w s =
     (let s1 = s\<lparr>tries := tries s + 1, attempts := attempts s @ [w_complete w]\<rparr> in
      if \<not> w_ready w (location s1) \<and> tries s1 < maxTries then
        Inr (s1\<lparr>timers := timers s1 @ [(9, w)]\<rparr>)
      else if test \<and> \<not> w_ready w (location s1) then Inl (NotReady, s1)
      else
        (let s2 = s1\<lparr>completed := completed s1 @ [w_complete w]\<rparr>;
             s3 = s2\<lparr>tries := 0\<rparr>
         in case queue s3 of
              [] \<Rightarrow> Inr s3
            | again # rest \<Rightarrow> rapidChangeWorkaround test again (s3\<lparr>queue := rest\<rparr>)))"
  by pat_completeness auto
termination
  by (relation "measure (\<lambda>(test, w, s). length (queue s))") auto

definition tryChange ::
  "bool \<Rightarrow> wait \<Rightarrow> retry_state \<Rightarrow> (settle_error \<times> retry_state) + retry_state" where
  "tryChange test w s =
     (if tries s = 0 then rapidChangeWorkaround test w s
      else Inr (s\<lparr>queue := queue s @ [w]\<rparr>))"

text \<open>
  What can happen to the module: a caller asks for a wait, the oldest timer fires, or the
  browser's location changes.
\<close>

datatype event = TryChange wait | TimerFires | Location string

definition step ::
  "bool \<Rightarrow> event \<Rightarrow> retry_state \<Rightarrow> (settle_error \<times> retry_state) + retry_state" where
  "step test e s =
     (case e of
        TryChange w \<Rightarrow> tryChange test w s
      | TimerFires \<Rightarrow>
          (case timers s of
             [] \<Rightarrow> Inr s
           | (d, w) # ts \<Rightarrow> rapidChangeWorkaround test w (s\<lparr>timers := ts\<rparr>))
      | Location u \<Rightarrow> Inr (s\<lparr>location := u\<rparr>))"

fun run ::
  "bool \<Rightarrow> event list \<Rightarrow> retry_state \<Rightarrow> (settle_error \<times> retry_state) + retry_state" where
  "run test [] s = Inr s"
| "run test (e # es) s =
     (case step test e s of Inl err \<Rightarrow> Inl err | Inr s' \<Rightarrow> run test es s')"









text \<open>The number of native calls (gate invocations and \<^verbatim>\<open>history.go\<close>) made so far.\<close>

definition calls :: "browser_history \<Rightarrow> nat" where
  "calls s = length (go_calls s) + length (jump_calls s)"

section \<open>urlToAction: values, routes and options\<close>

text \<open>
  JavaScript values as far as the translator produces them. Strings are byte strings; the
  only characters the code looks at are ASCII. \<open>Num n\<close> is the double whose value is the
  integer \<open>n\<close>; \<open>Infinity\<close> is what \<^verbatim>\<open>parseFloat\<close> returns beyond the largest double.
  Objects are association lists in key order.
\<close>

datatype jsval = Undefined | Str string | Num nat | Infinity

type_synonym obj = "(string \<times> jsval) list"

datatype js_error = TypeError | URIError

text \<open>
  A default (\<^verbatim>\<open>defaultParams\<close>, \<^verbatim>\<open>defaultQuery\<close>, \<^verbatim>\<open>defaultHash\<close>, \<^verbatim>\<open>defaultState\<close>) is
  a function or a plain value. Functions stored in routes and options are handles of type
  \<open>'h\<close>; the runtime below says what calling one returns.
\<close>

datatype ('h, 'v) dflt = DefFn 'h | DefVal 'v

record 'h route =
  r_path :: "string option"
  r_fromPath :: "'h option"
  r_fromSearch :: "'h option"
  r_fromHash :: "'h option"
  r_defaultParams :: "('h, obj) dflt option"
  r_defaultQuery :: "('h, obj) dflt option"
  r_defaultHash :: "('h, string) dflt option"
  r_defaultState :: "('h, obj) dflt option"
  r_convertNumbers :: "bool option"
  r_capitalizedWords :: "bool option"
  r_parseQuery :: "'h option"

record 'h options =
  o_fromPath :: "'h option"
  o_fromSearch :: "'h option"
  o_fromHash :: "'h option"
  o_defaultParams :: "('h, obj) dflt option"
  o_defaultQuery :: "('h, obj) dflt option"
  o_defaultHash :: "('h, string) dflt option"
  o_defaultState :: "('h, obj) dflt option"
  o_convertNumbers :: "bool option"
  o_capitalizedWords :: "bool option"
  o_parseQuery :: "'h option"

text \<open>The route table: its entries in the order they are declared.\<close>

type_synonym 'h routesMap = "(string \<times> 'h route) list"

record location =
  l_pathname :: string
  l_search :: string
  l_hash :: string

text \<open>What the pattern matcher extracts: raw path parameters (undefined for an unfilled
  optional segment), the query object and the hash.\<close>

record raw_match =
  m_params :: "(string \<times> string option) list"
  m_query :: obj
  m_hash :: string

text \<open>
  The surroundings of the translator: the JavaScript built-in \<^verbatim>\<open>decodeURIComponent\<close>
  (which throws \<^verbatim>\<open>URIError\<close> on a malformed escape), the imported
  \<^verbatim>\<open>urlToLocation\<close>, the pattern matching inside the imported \<^verbatim>\<open>matchUrl\<close>, and the
  result of calling each kind of user-supplied function with the arguments the code passes.
\<close>

record 'h runtime =
  decodeURIComponent :: "string \<Rightarrow> js_error + string"
  urlToLocation :: "string \<Rightarrow> location"
  matchPattern :: "location \<Rightarrow> 'h route \<Rightarrow> raw_match option"
  call_fromPath ::
    "'h \<Rightarrow> string option \<Rightarrow> string \<Rightarrow> string option \<Rightarrow> 'h route \<Rightarrow> 'h options \<Rightarrow> jsval"
  call_fromSearch :: "'h \<Rightarrow> jsval \<Rightarrow> string \<Rightarrow> 'h route \<Rightarrow> 'h options \<Rightarrow> jsval"
  call_fromHash :: "'h \<Rightarrow> string \<Rightarrow> 'h route \<Rightarrow> 'h options \<Rightarrow> string"
  call_defaultObj :: "'h \<Rightarrow> obj \<Rightarrow> 'h route \<Rightarrow> 'h options \<Rightarrow> obj"
  call_defaultHash :: "'h \<Rightarrow> string \<Rightarrow> 'h route \<Rightarrow> 'h options \<Rightarrow> string"
  call_parseQuery :: "'h \<Rightarrow> string \<Rightarrow> obj"

record received_action =
  ra_type :: string
  ra_params :: obj
  ra_query :: obj
  ra_hash :: string
  ra_basename :: string
  ra_state :: obj

text \<open>The translator's first argument: a URL string, or an object with \<^verbatim>\<open>url\<close> and
  optional \<^verbatim>\<open>basename\<close> and \<^verbatim>\<open>state\<close>.\<close>

datatype received = Url string | Loc string "string option" "obj option"

section \<open>urlToAction: the transformers\<close>

text \<open>\<^verbatim>\<open>{ ...def, ...params }\<close>: the keys of \<open>def\<close> in their order, overwritten in place by
  \<open>params\<close>, then the new keys of \<open>params\<close>.\<close>

definition spread :: "obj \<Rightarrow> obj \<Rightarrow> obj" where
  "spread def params = fold (\<lambda>(k, v). AList.update k v) params def"

text \<open>\<^verbatim>\<open>isNumber = val => /^\d+$/.test(val)\<close>; \<^verbatim>\<open>test\<close> turns undefined into the string
  \<^verbatim>\<open>"undefined"\<close>.\<close>

definition is_digit :: "char \<Rightarrow> bool" where
  "is_digit c = (c \<in> set ''0123456789'')"

definition isNumber :: "string option \<Rightarrow> bool" where
  "isNumber val = (case val of None \<Rightarrow> False | Some s \<Rightarrow> s \<noteq> [] \<and> list_all is_digit s)"

definition digit_val :: "char \<Rightarrow> nat" where
  "digit_val c = (case map_of (zip ''0123456789'' [0, 1, 2, 3, 4, 5, 6, 7, 8, 9]) c of
                    Some d \<Rightarrow> d | None \<Rightarrow> 0)"

definition decimal :: "string \<Rightarrow> nat" where
  "decimal s = foldl (\<lambda>n c. 10 * n + digit_val c) 0 s"

text \<open>
  \<^verbatim>\<open>parseFloat\<close> on a string of digits: the double nearest to the decimal value, ties to
  the even mantissa. Below \<open>2^53\<close> every integer is a double; from there on a double
  keeps the 53 leading bits. (For more than 20 significant digits ECMAScript allows an
  implementation to round from the first 20 digits; the model rounds the exact value, as
  V8 does.)
\<close>

fun bit_length :: "nat \<Rightarrow> nat" where
  "bit_length n = (if n = 0 then 0 else Suc (bit_length (n div 2)))"

definition round_double :: "nat \<Rightarrow> nat" where
  "round_double n =
     (if n < 9007199254740992 then n
      else (let e = bit_length n - 53;
                q = n div 2 ^ e;
                r = n mod 2 ^ e;
                q' = (if 2 * r > 2 ^ e \<or> (2 * r = 2 ^ e \<and> odd q) then q + 1 else q)
            in q' * 2 ^ e))"

definition parseFloat :: "string \<Rightarrow> jsval" where
  "parseFloat s =
     (let m = round_double (decimal s) in if m < 2 ^ 1024 then Num m else Infinity)"

text \<open>
  \<^verbatim>\<open>s.replace(/-/g, ' ').replace(/\b\w/g, l => l.toUpperCase())\<close>: a word character
  (\<^verbatim>\<open>[A-Za-z0-9_]\<close>) that does not follow a word character is upper-cased.
\<close>

definition is_word :: "char \<Rightarrow> bool" where
  "is_word c = (c \<in> set (''abcdefghijklmnopqrstuvwxyz'' @ ''ABCDEFGHIJKLMNOPQRSTUVWXYZ''
                            @ ''0123456789_''))"

definition toUpperCase :: "char \<Rightarrow> char" where
  "toUpperCase c =
     (case map_of (zip ''abcdefghijklmnopqrstuvwxyz'' ''ABCDEFGHIJKLMNOPQRSTUVWXYZ'') c of
        Some u \<Rightarrow> u | None \<Rightarrow> c)"

fun upcase_words :: "bool \<Rightarrow> string \<Rightarrow> string" where
  "upcase_words prev [] = []"
| "upcase_words prev (c # cs) =
     (if is_word c \<and> \<not> prev then toUpperCase c else c) # upcase_words (is_word c) cs"

definition capitalize :: "string \<Rightarrow> string" where
  "capitalize s = upcase_words False (map (\<lambda>c. if c = CHR ''-'' then CHR '' '' else c) s)"

text \<open>\<^verbatim>\<open>route.x || (opts.x && route.x !== false)\<close> for the two switches.\<close>

definition enabled :: "bool option \<Rightarrow> bool option \<Rightarrow> bool" where
  "enabled r ob = (r = Some True \<or> (ob = Some True \<and> r \<noteq> Some False))"

definition str_or_undefined :: "string option \<Rightarrow> jsval" where
  "str_or_undefined v = (case v of None \<Rightarrow> Undefined | Some s \<Rightarrow> Str s)"

definition defaultFromPath ::
  "'h runtime \<Rightarrow> string option \<Rightarrow> string \<Rightarrow> string option \<Rightarrow> 'h route \<Rightarrow> 'h options
   \<Rightarrow> js_error + jsval" where
  "defaultFromPath rt decodedVal key val route opts =
     (if enabled (r_convertNumbers route) (o_convertNumbers opts) \<and> isNumber decodedVal
      then Inr (parseFloat (the decodedVal))
      else if enabled (r_capitalizedWords route) (o_capitalizedWords opts)
      then (case decodedVal of
              None \<Rightarrow> Inl TypeError
            | Some s \<Rightarrow> Inr (Str (capitalize s)))
      else (case o_fromPath opts of
              Some h \<Rightarrow> Inr (call_fromPath rt h decodedVal key val route opts)
            | None \<Rightarrow> Inr (str_or_undefined decodedVal)))"

text \<open>\<^verbatim>\<open>val && decodeURIComponent(val)\<close>: undefined and the empty string are not decoded.\<close>

definition decode :: "'h runtime \<Rightarrow> string option \<Rightarrow> js_error + string option" where
  "decode rt val =
     (case val of
        None \<Rightarrow> Inr None
      | Some s \<Rightarrow> if s = [] then Inr (Some s)
                  else (case decodeURIComponent rt s of Inl e \<Rightarrow> Inl e | Inr d \<Rightarrow> Inr (Some d)))"

text \<open>One round of the loop in \<^verbatim>\<open>fromPath\<close>: the new value of \<^verbatim>\<open>params[key]\<close>.\<close>

definition fromPath_key ::
  "'h runtime \<Rightarrow> 'h route \<Rightarrow> 'h options \<Rightarrow> string \<Rightarrow> string option \<Rightarrow> js_error + jsval" where
  "fromPath_key rt route opts key val =
     (case decode rt val of
        Inl e \<Rightarrow> Inl e
      | Inr decodedVal \<Rightarrow>
          (case r_fromPath route of
             Some h \<Rightarrow> Inr (call_fromPath rt h decodedVal key val route opts)
           | None \<Rightarrow> defaultFromPath rt decodedVal key val route opts))"

text \<open>The loop: a key whose new value is undefined is deleted.\<close>

fun fromPath_loop ::
  "'h runtime \<Rightarrow> 'h route \<Rightarrow> 'h options \<Rightarrow> (string \<times> string option) list \<Rightarrow> js_error + obj" where
  "fromPath_loop rt route opts [] = Inr []"
| "fromPath_loop rt route opts ((key, val) # rest) =
     (case fromPath_key rt route opts key val of
        Inl e \<Rightarrow> Inl e
      | Inr v \<Rightarrow>
          (case fromPath_loop rt route opts rest of
             Inl e \<Rightarrow> Inl e
           | Inr ps \<Rightarrow> Inr (if v = Undefined then ps else (key, v) # ps)))"

text \<open>\<^verbatim>\<open>def ? (typeof def === 'function' ? def(x, route, opts) : { ...def, ...x }) : x\<close>
  with \<^verbatim>\<open>def = route.d || opts.d\<close>; functions and objects are truthy.\<close>

definition with_default ::
  "'h runtime \<Rightarrow> ('h, obj) dflt option \<Rightarrow> ('h, obj) dflt option \<Rightarrow> obj \<Rightarrow> 'h route \<Rightarrow> 'h options
   \<Rightarrow> obj" where
  "with_default rt rd od x route opts =
     (case (case rd of Some d \<Rightarrow> Some d | None \<Rightarrow> od) of
        None \<Rightarrow> x
      | Some (DefFn h) \<Rightarrow> call_defaultObj rt h x route opts
      | Some (DefVal d) \<Rightarrow> spread d x)"

definition fromPath ::
  "'h runtime \<Rightarrow> (string \<times> string option) list \<Rightarrow> 'h route \<Rightarrow> 'h options \<Rightarrow> js_error + obj" where
  "fromPath rt params route opts =
     (case fromPath_loop rt route opts params of
        Inl e \<Rightarrow> Inl e
      | Inr ps \<Rightarrow>
          Inr (with_default rt (r_defaultParams route) (o_defaultParams opts) ps route opts))"

text \<open>The loop in \<^verbatim>\<open>fromSearch\<close>, run when a \<^verbatim>\<open>fromSearch\<close> function exists.\<close>

fun fromSearch_loop :: "'h runtime \<Rightarrow> 'h \<Rightarrow> 'h route \<Rightarrow> 'h options \<Rightarrow> obj \<Rightarrow> obj" where
  "fromSearch_loop rt h route opts [] = []"
| "fromSearch_loop rt h route opts ((key, v) # rest) =
     (let v' = call_fromSearch rt h v key route opts;
          qs = fromSearch_loop rt h route opts rest
      in if v' = Undefined then qs else (key, v') # qs)"

definition fromSearch :: "'h runtime \<Rightarrow> obj \<Rightarrow> 'h route \<Rightarrow> 'h options \<Rightarrow> obj" where
  "fromSearch rt query route opts =
     (let q = (case (case r_fromSearch route of Some h \<Rightarrow> Some h | None \<Rightarrow> o_fromSearch opts) of
                 Some h \<Rightarrow> fromSearch_loop rt h route opts query
               | None \<Rightarrow> query)
      in with_default rt (r_defaultQuery route) (o_defaultQuery opts) q route opts)"

text \<open>\<^verbatim>\<open>route.defaultHash || opts.defaultHash\<close>: an empty string is falsy.\<close>

definition truthy_hash :: "('h, string) dflt option \<Rightarrow> bool" where
  "truthy_hash d = (d \<noteq> None \<and> d \<noteq> Some (DefVal []))"

definition fromHash :: "'h runtime \<Rightarrow> string \<Rightarrow> 'h route \<Rightarrow> 'h options \<Rightarrow> string" where
  "fromHash rt hash route opts =
     (let hash1 = (case (case r_fromHash route of Some h \<Rightarrow> Some h | None \<Rightarrow> o_fromHash opts) of
                     Some h \<Rightarrow> call_fromHash rt h hash route opts
                   | None \<Rightarrow> hash);
          def = (if truthy_hash (r_defaultHash route) then r_defaultHash route
                 else o_defaultHash opts)
      in if truthy_hash def then
           (case the def of
              DefFn h \<Rightarrow> call_defaultHash rt h hash1 route opts
            | DefVal d \<Rightarrow> (if hash1 \<noteq> [] then hash1 else d))
         else hash1)"

definition fromState :: "'h runtime \<Rightarrow> obj \<Rightarrow> 'h route \<Rightarrow> 'h options \<Rightarrow> obj" where
  "fromState rt state route opts =
     with_default rt (r_defaultState route) (o_defaultState opts) state route opts"

text \<open>
  Modelled from the spec: \<^verbatim>\<open>matchUrl\<close> (imported from \<^verbatim>\<open>./index\<close>) is not among the
  sources. By sections 4.1 and 4.3 of the specification it returns null when the route's
  pattern does not match and otherwise the raw parameters, query and hash run through the
  transformers it is handed (\<^verbatim>\<open>fromPath\<close>, \<^verbatim>\<open>fromSearch\<close>, \<^verbatim>\<open>fromHash\<close>). The pattern
  matching itself is the runtime's \<open>matchPattern\<close>.
\<close>

definition matchUrl ::
  "'h runtime \<Rightarrow> location \<Rightarrow> 'h route \<Rightarrow> 'h options \<Rightarrow> js_error + (obj \<times> obj \<times> string) option" where
  "matchUrl rt l route opts =
     (case matchPattern rt l route of
        None \<Rightarrow> Inr None
      | Some m \<Rightarrow>
          (case fromPath rt (m_params m) route opts of
             Inl e \<Rightarrow> Inl e
           | Inr ps \<Rightarrow> Inr (Some (ps, fromSearch rt (m_query m) route opts,
                                   fromHash rt (m_hash m) route opts))))"

text \<open>
  Modelled from the spec: \<^verbatim>\<open>notFound\<close> (imported from \<^verbatim>\<open>../actions\<close>) is not among the
  sources. By section 4.3 the action's type is the scoped type handed over when there is
  one and the unscoped \<^verbatim>\<open>NOT_FOUND\<close> otherwise, and the state is passed through.
\<close>

definition notFound :: "obj \<Rightarrow> string option \<Rightarrow> string \<times> obj" where
  "notFound state type = ((case type of Some t \<Rightarrow> t | None \<Rightarrow> ''NOT_FOUND''), state)"

text \<open>
  \<^verbatim>\<open>(routes.NOT_FOUND.parseQuery || opts.parseQuery)(search)\<close>: reading a property of
  undefined and calling undefined throw \<^verbatim>\<open>TypeError\<close>.
\<close>

definition parseQuery :: "'h runtime \<Rightarrow> string \<Rightarrow> 'h routesMap \<Rightarrow> 'h options \<Rightarrow> js_error + obj" where
  "parseQuery rt search routes opts =
     (case map_of routes ''NOT_FOUND'' of
        None \<Rightarrow> Inl TypeError
      | Some nf \<Rightarrow>
          (case (case r_parseQuery nf of Some h \<Rightarrow> Some h | None \<Rightarrow> o_parseQuery opts) of
             None \<Rightarrow> Inl TypeError
           | Some h \<Rightarrow> Inr (call_parseQuery rt h search)))"

section \<open>urlToAction\<close>

text \<open>\<^verbatim>\<open>url.replace(basename, '')\<close> with a string pattern: the first occurrence, wherever
  it is, is removed.\<close>

fun replace_first :: "string \<Rightarrow> string \<Rightarrow> string" where
  "replace_first pat [] = []"
| "replace_first pat (c # cs) =
     (if prefix pat (c # cs) then drop (length pat) (c # cs) else c # replace_first pat cs)"

text \<open>
  \<^verbatim>\<open>Object.keys(routes)\<close>, for a table given in declaration order: the keys that are
  array indices (canonical decimal numerals up to \<open>2^32 - 2\<close>) in ascending numeric order,
  then the other keys in declaration order.
\<close>

definition array_index :: "string \<Rightarrow> bool" where
  "array_index k =
     (k \<noteq> [] \<and> list_all is_digit k \<and> (k = ''0'' \<or> hd k \<noteq> CHR ''0'')
      \<and> decimal k \<le> 4294967294)"

definition object_keys :: "string list \<Rightarrow> string list" where
  "object_keys ks =
     sort_key decimal (filter array_index ks) @ filter (\<lambda>k. \<not> array_index k) ks"

text \<open>\<^verbatim>\<open>routes[type].path\<close> as a condition: undefined and the empty string are falsy.\<close>

definition has_path :: "'h routesMap \<Rightarrow> string \<Rightarrow> bool" where
  "has_path routes type =
     (case map_of routes type of
        None \<Rightarrow> False
      | Some r \<Rightarrow> r_path r \<noteq> None \<and> r_path r \<noteq> Some [])"

text \<open>The \<^verbatim>\<open>for\<close> loop over \<^verbatim>\<open>types\<close>; \<open>None\<close> when it runs to its end.\<close>

fun match_loop ::
  "'h runtime \<Rightarrow> location \<Rightarrow> 'h routesMap \<Rightarrow> 'h options \<Rightarrow> string \<Rightarrow> obj \<Rightarrow> string list
   \<Rightarrow> js_error + received_action option" where
  "match_loop rt l routes opts basename state [] = Inr None"
| "match_loop rt l routes opts basename state (type # types) =
     (case map_of routes type of
        None \<Rightarrow> Inl TypeError
      | Some route \<Rightarrow>
          (case matchUrl rt l route opts of
             Inl e \<Rightarrow> Inl e
           | Inr None \<Rightarrow> match_loop rt l routes opts basename state types
           | Inr (Some (params, query, hash)) \<Rightarrow>
               Inr (Some \<lparr>ra_type = type, ra_params = params, ra_query = query, ra_hash = hash,
                          ra_basename = basename,
                          ra_state = fromState rt state route opts\<rparr>)))"

text \<open>\<^verbatim>\<open>const { url, basename = '', state = {} } = typeof loc === 'string' ? { url: loc } : loc\<close>\<close>

definition received_url :: "received \<Rightarrow> string" where
  "received_url loc = (case loc of Url u \<Rightarrow> u | Loc u b s \<Rightarrow> u)"

definition received_basename :: "received \<Rightarrow> string" where
  "received_basename loc =
     (case loc of Url u \<Rightarrow> [] | Loc u b s \<Rightarrow> (case b of None \<Rightarrow> [] | Some b' \<Rightarrow> b'))"

definition received_state :: "received \<Rightarrow> obj" where
  "received_state loc =
     (case loc of Url u \<Rightarrow> [] | Loc u b s \<Rightarrow> (case s of None \<Rightarrow> [] | Some s' \<Rightarrow> s'))"

definition urlToAction ::
  "'h runtime \<Rightarrow> received \<Rightarrow> 'h routesMap \<Rightarrow> 'h options \<Rightarrow> string
   \<Rightarrow> js_error + received_action" where
  "urlToAction rt loc routes opts scene =
     (let basename = received_basename loc;
          state = received_state loc;
          types = filter (has_path routes) (object_keys (map fst routes));
          path = replace_first basename (received_url loc);
          l = urlToLocation rt path
      in case match_loop rt l routes opts basename state types of
           Inl e \<Rightarrow> Inl e
         | Inr (Some a) \<Rightarrow> Inr a
         | Inr None \<Rightarrow>
             (let type = (if map_of routes (scene @ ''/NOT_FOUND'') \<noteq> None
                          then Some (scene @ ''/NOT_FOUND'') else None);
                  (t, st) = notFound state type
              in case (if l_search l \<noteq> [] then parseQuery rt (l_search l) routes opts
                       else Inr []) of
                   Inl e \<Rightarrow> Inl e
                 | Inr q \<Rightarrow>
                     Inr \<lparr>ra_type = t, ra_params = [], ra_query = q, ra_hash = l_hash l,
                          ra_basename = basename, ra_state = st\<rparr>))"

section \<open>A concrete runtime and route table\<close>

text \<open>
  Stand-ins for the surroundings, used to run the translator on concrete inputs: a
  decoder for strings without an escape (on which \<^verbatim>\<open>decodeURIComponent\<close> is the
  identity), a splitter of URLs at \<^verbatim>\<open>?\<close> and \<^verbatim>\<open>#\<close>, and a matcher for patterns made of
  literal segments, \<^verbatim>\<open>:name\<close> and \<^verbatim>\<open>:name?\<close>.
\<close>

datatype hook = OrDash | Fixed obj | Whole

definition plain_decode :: "string \<Rightarrow> js_error + string" where
  "plain_decode s = (if CHR ''%'' \<in> set s then Inl URIError else Inr s)"

definition split_url :: "string \<Rightarrow> location" where
  "split_url u =
     (let before_hash = takeWhile (\<lambda>c. c \<noteq> CHR ''#'') u;
          after_hash = drop (Suc (length before_hash)) u
      in \<lparr>l_pathname = takeWhile (\<lambda>c. c \<noteq> CHR ''?'') before_hash,
          l_search = drop (Suc (length (takeWhile (\<lambda>c. c \<noteq> CHR ''?'') before_hash))) before_hash,
          l_hash = after_hash\<rparr>)"

fun segments :: "string \<Rightarrow> string \<Rightarrow> string list" where
  "segments acc [] = (if acc = [] then [] else [acc])"
| "segments acc (c # cs) =
     (if c = CHR ''/'' then (if acc = [] then [] else [acc]) @ segments [] cs
      else segments (acc @ [c]) cs)"

definition is_param :: "string \<Rightarrow> bool" where
  "is_param p = (p \<noteq> [] \<and> hd p = CHR '':'')"

definition is_optional :: "string \<Rightarrow> bool" where
  "is_optional p = (is_param p \<and> last p = CHR ''?'')"

definition param_name :: "string \<Rightarrow> string" where
  "param_name p = filter (\<lambda>c. c \<noteq> CHR '':'' \<and> c \<noteq> CHR ''?'') p"

fun match_segments :: "string list \<Rightarrow> string list \<Rightarrow> (string \<times> string option) list option" where
  "match_segments [] [] = Some []"
| "match_segments [] (s # ss) = None"
| "match_segments (p # ps) [] =
     (if is_optional p then map_option ((#) (param_name p, None)) (match_segments ps [])
      else None)"
| "match_segments (p # ps) (s # ss) =
     (if is_param p then map_option ((#) (param_name p, Some s)) (match_segments ps ss)
      else if p = s then match_segments ps ss
      else None)"

definition rt0 :: "hook runtime" where
  "rt0 = \<lparr>decodeURIComponent = plain_decode,
          urlToLocation = split_url,
          matchPattern = (\<lambda>l r. case r_path r of
             None \<Rightarrow> None
           | Some p \<Rightarrow> map_option (\<lambda>ps. \<lparr>m_params = ps, m_query = [], m_hash = l_hash l\<rparr>)
                        (match_segments (segments [] p) (segments [] (l_pathname l)))),
          call_fromPath = (\<lambda>h d k v r os. case h of
             OrDash \<Rightarrow> (case d of None \<Rightarrow> Str ''-'' | Some s \<Rightarrow> Str s)
           | _ \<Rightarrow> Undefined),
          call_fromSearch = (\<lambda>h v k r os. v),
          call_fromHash = (\<lambda>h x r os. x),
          call_defaultObj = (\<lambda>h x r os. case h of Fixed ob \<Rightarrow> ob | _ \<Rightarrow> x),
          call_defaultHash = (\<lambda>h x r os. x),
          call_parseQuery = (\<lambda>h s. [(''q'', Str s)])\<rparr>"

definition route0 :: "hook route" where
  "route0 = \<lparr>r_path = None, r_fromPath = None, r_fromSearch = None, r_fromHash = None,
             r_defaultParams = None, r_defaultQuery = None, r_defaultHash = None,
             r_defaultState = None, r_convertNumbers = None, r_capitalizedWords = None,
             r_parseQuery = None\<rparr>"

definition opts0 :: "hook options" where
  "opts0 = \<lparr>o_fromPath = None, o_fromSearch = None, o_fromHash = None,
            o_defaultParams = None, o_defaultQuery = None, o_defaultHash = None,
            o_defaultState = None, o_convertNumbers = None, o_capitalizedWords = None,
            o_parseQuery = None\<rparr>"

definition routes0 :: "hook routesMap" where
  "routes0 =
     [(''HOME'', route0\<lparr>r_path := Some ''/''\<rparr>),
      (''INFO'', route0),
      (''CAT'', route0\<lparr>r_path := Some ''/cat/:name?'', r_capitalizedWords := Some True\<rparr>),
      (''ITEM'', route0\<lparr>r_path := Some ''/item/:id'', r_convertNumbers := Some True\<rparr>),
      (''THING'', route0\<lparr>r_path := Some ''/item/:thing''\<rparr>),
      (''NOT_FOUND'', route0\<lparr>r_path := Some ''/not-found'', r_parseQuery := Some Whole\<rparr>)]"

section \<open>Properties of pop handling\<close>



text \<open>
  Claim C1, as stated, at the double back-press scenario: the first pop (5 to 4) sets
  \<^verbatim>\<open>pendingPop = -1\<close> and leaves the engine's URL at \<^verbatim>\<open>/5\<close>; the second pop reports
  \<^verbatim>\<open>/5\<close>. The handler computes \<^verbatim>\<open>n = pendingPop * -1 = 1\<close> and calls
  \<^verbatim>\<open>_forceGo(n * -1)\<close>, so the one force-navigation goes by \<open>-1\<close>, the pending delta,
  not by the flipped delta \<open>+1\<close>.
\<close>

theorem double_pop_same_url_goes_by_pending:
  "pendingPop (handlePop isNext5 idle5 ''/4'') = Some (- 1)
   \<and> url (handlePop isNext5 idle5 ''/4'') = ''/5''
   \<and> go_calls (handlePop isNext5 (handlePop isNext5 idle5 ''/4'') ''/5'') = [- 1]
   \<and> go_calls (handlePop isNext5 (handlePop isNext5 idle5 ''/4'') ''/5'') \<noteq> [1]"
  by (simp add: idle5_def isNext5_def handlePop_def pendingPop_falsy_def forceGo_def Let_def)

text \<open>
  Claim C1, amended: for every pop event that arrives while a pop is pending (and that is
  not swallowed by the forced flag), the handler does not invoke the gate and leaves
  \<^verbatim>\<open>pendingPop\<close> as it is; it force-navigates once, by the pending delta itself when the
  reported URL equals the engine's recorded URL, and by the inverse of the pending delta
  otherwise.
\<close>

theorem handlePop_while_pending:
  assumes "\<not> popForced s" and "pendingPop s = Some p" and "p \<noteq> 0"
  shows "handlePop isNext s loc = forceGo (if loc = url s then p else - p) s
       \<and> jump_calls (handlePop isNext s loc) = jump_calls s
       \<and> go_calls (handlePop isNext s loc) = go_calls s @ [if loc = url s then p else - p]
       \<and> pendingPop (handlePop isNext s loc) = Some p"
  using assms by (simp add: handlePop_def pendingPop_falsy_def forceGo_def Let_def)

theorem handlePop_while_pending_witness:
  "handlePop isNext5 (handlePop isNext5 idle5 ''/4'') ''/3''
     = forceGo 1 (handlePop isNext5 idle5 ''/4'')
   \<and> length (jump_calls (handlePop isNext5 (handlePop isNext5 idle5 ''/4'') ''/3'')) = 1
   \<and> go_calls (handlePop isNext5 (handlePop isNext5 idle5 ''/4'') ''/3'') = [1]"
  using handlePop_while_pending[where s="handlePop isNext5 idle5 ''/4''" and p="- 1"
      and loc="''/3''" and isNext=isNext5]
  by (simp add: idle5_def isNext5_def handlePop_def pendingPop_falsy_def Let_def)

text \<open>
  Claim C4, as stated, fails when two force-navigations are issued before the browser
  reports either: the flag is a boolean, so the first pop event clears it and the second
  is handled as a user's pop, with the gate invoked.
\<close>

theorem two_forced_one_suppressed:
  "jump_calls (handlePop isNext5 (handlePop isNext5 (forceGo 1 (forceGo (- 1) idle5)) ''/4'') ''/5'')
     = [\<lparr>jc_n = - 1, jc_kind = Back, jc_revertPop = 0\<rparr>]
   \<and> go_calls (handlePop isNext5 (handlePop isNext5 (forceGo 1 (forceGo (- 1) idle5)) ''/4'') ''/5'')
     = [- 1, 1]"
  by (simp add: idle5_def isNext5_def handlePop_def pendingPop_falsy_def forceGo_def Let_def)

text \<open>
  Claim C4, amended: every \<^verbatim>\<open>_forceGo\<close> sets the boolean forced flag and calls
  \<^verbatim>\<open>history.go\<close>; the next pop event, whatever it reports, only clears the flag (no gate
  invocation, no navigation); and the pop event after that is not suppressed: it makes
  exactly one call, to the gate or to \<^verbatim>\<open>history.go\<close>. This holds in every state, so also
  after several force-navigations in a row, which together suppress one pop event.
\<close>

theorem forced_flag_one_shot:
  "popForced (forceGo n s)
   \<and> go_calls (forceGo n s) = go_calls s @ [n]
   \<and> handlePop isNext (forceGo n s) loc = s\<lparr>popForced := False, go_calls := go_calls s @ [n]\<rparr>
   \<and> \<not> popForced (handlePop isNext (forceGo n s) loc)
   \<and> calls (handlePop isNext (forceGo n s) loc) = calls (forceGo n s)
   \<and> calls (handlePop isNext (handlePop isNext (forceGo n s) loc) loc')
       = Suc (calls (forceGo n s))"
  by (simp add: handlePop_def forceGo_def calls_def Let_def)

theorem forced_flag_one_shot_witness:
  "handlePop isNext5 (forceGo 1 idle5) ''/6'' = idle5\<lparr>go_calls := [1]\<rparr>
   \<and> calls (handlePop isNext5 (handlePop isNext5 (forceGo 1 idle5) ''/6'') ''/4'') = 2"
  using forced_flag_one_shot[of 1 idle5 isNext5 "''/6''" "''/4''"]
  by (simp add: idle5_def isNext5_def forceGo_def calls_def handlePop_def pendingPop_falsy_def
      Let_def)



section \<open>Properties of jump\<close>

text \<open>
  Claim C9: a jump by \<open>n\<close>. If \<open>n\<close> is zero it is a plain replace: wait for the previous
  URL, then \<^verbatim>\<open>replaceState\<close> of the action. Otherwise, if it came from a native pop, no
  native operation is performed. Otherwise: wait for the previous URL, force-navigate by
  \<open>n\<close>, wait for the target URL, and then replace (which waits for the target URL once
  more and calls \<^verbatim>\<open>replaceState\<close>), in that order.
\<close>

theorem jump_cases:
  "(n = 0 \<longrightarrow> jump this a n isPop =
      [Await (prevUrl this) (Some ''_replace''),
       ReplaceState (hid this) (a_key a) (a_state a) (a_url a)])
 \<and> (n \<noteq> 0 \<and> isPop \<longrightarrow> jump this a n isPop = [])
 \<and> (n \<noteq> 0 \<and> \<not> isPop \<longrightarrow> jump this a n isPop =
      [Await (prevUrl this) (Some ''jump prev''), ForceGo n,
       Await (a_url a) (Some ''jump loc''), Await (a_url a) (Some ''_replace''),
       ReplaceState (hid this) (a_key a) (a_state a) (a_url a)])"
  by (simp add: jump_def replace_def awaitLocation_def orPrevUrl_def)

theorem jump_cases_witness:
  "jump idle5 \<lparr>a_state = (), a_key = ''k3'', a_url = ''/3''\<rparr> (- 2) False =
      [Await ''/5'' (Some ''jump prev''), ForceGo (- 2),
       Await ''/3'' (Some ''jump loc''), Await ''/3'' (Some ''_replace''),
       ReplaceState ''s1'' ''k3'' () ''/3'']
   \<and> jump idle5 \<lparr>a_state = (), a_key = ''k3'', a_url = ''/3''\<rparr> (- 2) True = []
   \<and> jump idle5 \<lparr>a_state = (), a_key = ''k5'', a_url = ''/5''\<rparr> 0 True =
      [Await ''/5'' (Some ''_replace''), ReplaceState ''s1'' ''k5'' () ''/5'']"
  using jump_cases[of "- 2" idle5 "\<lparr>a_state = (), a_key = ''k3'', a_url = ''/3''\<rparr>" False]
    jump_cases[of "- 2" idle5 "\<lparr>a_state = (), a_key = ''k3'', a_url = ''/3''\<rparr>" True]
    jump_cases[of 0 idle5 "\<lparr>a_state = (), a_key = ''k5'', a_url = ''/5''\<rparr>" True]
  by (simp add: idle5_def)

section \<open>Properties of the retry queue\<close>

declare rapidChangeWorkaround.simps [simp del]


























lemma run_append:
  "run test (es1 @ es2) s =
     (case run test es1 s of Inl err \<Rightarrow> Inl err | Inr s' \<Rightarrow> run test es2 s')"
  by (induction es1 arbitrary: s) (auto split: sum.splits)




section \<open>Properties of the translator\<close>

declare bit_length.simps [simp del]




lemma set_object_keys: "set (object_keys ks) = set ks"
  by (auto simp: object_keys_def)




lemma bit_length_53: "bit_length 9007199254740992 = 54"
  by (simp add: bit_length.simps)

lemma round_double_exact: "n \<le> 9007199254740992 \<Longrightarrow> round_double n = n"
proof (cases "n < 9007199254740992")
  case True
  then show ?thesis by (simp add: round_double_def)
next
  case False
  assume "n \<le> 9007199254740992"
  with False have "n = 9007199254740992" by simp
  then show ?thesis by (simp add: round_double_def bit_length_53 Let_def)
qed

lemma parseFloat_exact: "decimal s \<le> 9007199254740992 \<Longrightarrow> parseFloat s = Num (decimal s)"
proof -
  assume a: "decimal s \<le> 9007199254740992"
  have "(9007199254740992::nat) < 2 ^ 1024" by simp
  with a have "decimal s < 2 ^ 1024" by linarith
  with a show ?thesis by (simp add: parseFloat_def round_double_exact Let_def)
qed

lemma parseFloat_ties: "parseFloat ''9007199254740993'' = Num 9007199254740992"
  by (simp add: parseFloat_def round_double_def decimal_def digit_val_def bit_length.simps Let_def)



lemma match_loop_skip:
  assumes "\<forall>k\<in>set pre. \<exists>r. map_of routes k = Some r \<and> matchPattern rt l r = None"
  shows "match_loop rt l routes opts b st (pre @ rest) = match_loop rt l routes opts b st rest"
  using assms by (induction pre) (auto simp: matchUrl_def)


lemma has_path_route: "has_path routes k \<Longrightarrow> \<exists>r. map_of routes k = Some r"
  by (auto simp: has_path_def split: option.splits)

lemma urlToAction_cases:
  assumes "l = urlToLocation rt (replace_first (received_basename loc) (received_url loc))"
    and "types = filter (has_path routes) (object_keys (map fst routes))"
  shows "urlToAction rt loc routes opts scene =
     (case match_loop rt l routes opts (received_basename loc) (received_state loc) types of
        Inl e \<Rightarrow> Inl e
      | Inr (Some a) \<Rightarrow> Inr a
      | Inr None \<Rightarrow>
          (case (if l_search l \<noteq> [] then parseQuery rt (l_search l) routes opts else Inr []) of
             Inl e \<Rightarrow> Inl e
           | Inr q \<Rightarrow>
               Inr \<lparr>ra_type = (if map_of routes (scene @ ''/NOT_FOUND'') \<noteq> None
                                then scene @ ''/NOT_FOUND'' else ''NOT_FOUND''),
                    ra_params = [], ra_query = q, ra_hash = l_hash l,
                    ra_basename = received_basename loc, ra_state = received_state loc\<rparr>))"
  using assms by (simp add: urlToAction_def notFound_def Let_def split: sum.splits option.splits)

lemmas ev = received_url_def received_basename_def received_state_def rt0_def routes0_def
  object_keys_def array_index_def round_double_def
  route0_def opts0_def has_path_def split_url_def matchUrl_def fromPath_def fromPath_key_def
  decode_def plain_decode_def defaultFromPath_def enabled_def isNumber_def is_digit_def
  parseFloat_def decimal_def digit_val_def capitalize_def is_word_def toUpperCase_def
  with_default_def fromSearch_def fromHash_def truthy_hash_def fromState_def notFound_def
  parseQuery_def is_param_def is_optional_def param_name_def str_or_undefined_def spread_def
  Let_def

lemmas mp = matchUrl_def rt0_def route0_def is_param_def is_optional_def param_name_def




lemma toUpperCase_hyphen: "toUpperCase c = CHR ''-'' \<Longrightarrow> c = CHR ''-''"
  by (simp add: toUpperCase_def split: if_splits)

lemma length_upcase_words: "length (upcase_words b s) = length s"
  by (induction s arbitrary: b) simp_all

lemma hyphen_upcase_words:
  "CHR ''-'' \<in> set (upcase_words b s) \<Longrightarrow> CHR ''-'' \<in> set s"
proof (induction s arbitrary: b)
  case Nil
  then show ?case by simp
next
  case (Cons c cs)
  from Cons.prems have "CHR ''-'' = toUpperCase c \<or> CHR ''-'' = c
      \<or> CHR ''-'' \<in> set (upcase_words (is_word c) cs)"
    by (auto split: if_splits)
  then show ?case using Cons.IH toUpperCase_hyphen[of c] by auto
qed

lemma capitalize_props: "length (capitalize s) = length s \<and> CHR ''-'' \<notin> set (capitalize s)"
proof -
  let ?m = "map (\<lambda>c. if c = CHR ''-'' then CHR '' '' else c) s"
  have n: "CHR ''-'' \<notin> set ?m" by (induction s) auto
  have "CHR ''-'' \<notin> set (upcase_words False ?m)"
    using hyphen_upcase_words[of False ?m] n by blast
  then show ?thesis by (simp add: capitalize_def length_upcase_words)
qed

text \<open>
  Claim C5, as stated, fails for an unfilled optional parameter on a route with a
  \<^verbatim>\<open>fromPath\<close> function: the function is called with undefined and its result becomes
  the parameter.
\<close>

theorem undefined_param_is_transformed:
  "fromPath rt0 [(''name'', None)] (route0\<lparr>r_fromPath := Some OrDash\<rparr>) opts0
     = Inr [(''name'', Str ''-'')]
   \<and> decode rt0 None = Inr None"
  by (simp add: ev)

text \<open>
  Claim C5, amended: an undefined raw value and the empty string are not URL-decoded; any
  other value is, and an error thrown by \<^verbatim>\<open>decodeURIComponent\<close> is the outcome. The value,
  decoded or not, then goes through exactly one of the following, the first that applies:
  the route's \<^verbatim>\<open>fromPath\<close> (called with undefined too); else, if number conversion is
  enabled (by the route, or by the options and not switched off by the route) and the
  decoded string is all digits, the parsed number; else, if capitalization is enabled the
  same way, no later step is reached: a string has its hyphens turned into spaces and each
  word capitalized (on an undefined value the step throws a TypeError); else the options'
  \<^verbatim>\<open>fromPath\<close> (called with undefined too); else the value unchanged.
\<close>

theorem fromPath_key_precedence:
  "(val = None \<or> val = Some [] \<longrightarrow> decode rt val = Inr val)
   \<and> (\<forall>s. val = Some s \<and> s \<noteq> [] \<longrightarrow>
         decode rt val = (case decodeURIComponent rt s of
                            Inl e \<Rightarrow> Inl e | Inr x \<Rightarrow> Inr (Some x)))
   \<and> (\<forall>e. decode rt val = Inl e \<longrightarrow> fromPath_key rt route opts key val = Inl e)
   \<and> (\<forall>d. decode rt val = Inr d \<longrightarrow>
         (\<forall>h. r_fromPath route = Some h \<longrightarrow>
             fromPath_key rt route opts key val = Inr (call_fromPath rt h d key val route opts))
       \<and> (r_fromPath route = None \<longrightarrow>
            (\<forall>s. (r_convertNumbers route = Some True
                   \<or> (o_convertNumbers opts = Some True \<and> r_convertNumbers route \<noteq> Some False))
                 \<and> d = Some s \<and> s \<noteq> [] \<and> list_all is_digit s \<longrightarrow>
               fromPath_key rt route opts key val = Inr (parseFloat s)
               \<and> (decimal s \<le> 9007199254740992 \<longrightarrow> parseFloat s = Num (decimal s)))
          \<and> (\<forall>s. \<not> (enabled (r_convertNumbers route) (o_convertNumbers opts) \<and> isNumber d)
                 \<and> (r_capitalizedWords route = Some True
                   \<or> (o_capitalizedWords opts = Some True \<and> r_capitalizedWords route \<noteq> Some False))
                 \<and> d = Some s \<longrightarrow>
               fromPath_key rt route opts key val = Inr (Str (capitalize s))
               \<and> length (capitalize s) = length s \<and> CHR ''-'' \<notin> set (capitalize s))
          \<and> ((r_capitalizedWords route = Some True
                   \<or> (o_capitalizedWords opts = Some True \<and> r_capitalizedWords route \<noteq> Some False))
              \<and> d = None \<longrightarrow>
               fromPath_key rt route opts key val = Inl TypeError)
          \<and> (\<not> (enabled (r_convertNumbers route) (o_convertNumbers opts) \<and> isNumber d)
              \<and> \<not> enabled (r_capitalizedWords route) (o_capitalizedWords opts) \<longrightarrow>
                (\<forall>h. o_fromPath opts = Some h \<longrightarrow>
                   fromPath_key rt route opts key val
                     = Inr (call_fromPath rt h d key val route opts))
              \<and> (o_fromPath opts = None \<longrightarrow>
                   fromPath_key rt route opts key val = Inr (str_or_undefined d)))))"
proof -
  have a: "val = None \<or> val = Some [] \<longrightarrow> decode rt val = Inr val"
    "\<forall>s. val = Some s \<and> s \<noteq> [] \<longrightarrow>
         decode rt val = (case decodeURIComponent rt s of
                            Inl e \<Rightarrow> Inl e | Inr x \<Rightarrow> Inr (Some x))"
    by (auto simp: decode_def)
  have x: "\<forall>e. decode rt val = Inl e \<longrightarrow> fromPath_key rt route opts key val = Inl e"
    by (simp add: fromPath_key_def)
  have y: "(\<forall>h. r_fromPath route = Some h \<longrightarrow>
             fromPath_key rt route opts key val = Inr (call_fromPath rt h d key val route opts))
       \<and> (r_fromPath route = None \<longrightarrow>
            (\<forall>s. (r_convertNumbers route = Some True
                   \<or> (o_convertNumbers opts = Some True \<and> r_convertNumbers route \<noteq> Some False))
                 \<and> d = Some s \<and> s \<noteq> [] \<and> list_all is_digit s \<longrightarrow>
               fromPath_key rt route opts key val = Inr (parseFloat s)
               \<and> (decimal s \<le> 9007199254740992 \<longrightarrow> parseFloat s = Num (decimal s)))
          \<and> (\<forall>s. \<not> (enabled (r_convertNumbers route) (o_convertNumbers opts) \<and> isNumber d)
                 \<and> (r_capitalizedWords route = Some True
                   \<or> (o_capitalizedWords opts = Some True \<and> r_capitalizedWords route \<noteq> Some False))
                 \<and> d = Some s \<longrightarrow>
               fromPath_key rt route opts key val = Inr (Str (capitalize s))
               \<and> length (capitalize s) = length s \<and> CHR ''-'' \<notin> set (capitalize s))
          \<and> ((r_capitalizedWords route = Some True
                   \<or> (o_capitalizedWords opts = Some True \<and> r_capitalizedWords route \<noteq> Some False))
              \<and> d = None \<longrightarrow>
               fromPath_key rt route opts key val = Inl TypeError)
          \<and> (\<not> (enabled (r_convertNumbers route) (o_convertNumbers opts) \<and> isNumber d)
              \<and> \<not> enabled (r_capitalizedWords route) (o_capitalizedWords opts) \<longrightarrow>
                (\<forall>h. o_fromPath opts = Some h \<longrightarrow>
                   fromPath_key rt route opts key val
                     = Inr (call_fromPath rt h d key val route opts))
              \<and> (o_fromPath opts = None \<longrightarrow>
                   fromPath_key rt route opts key val = Inr (str_or_undefined d))))"
    if dec: "decode rt val = Inr d" for d
  proof -
    have b: "\<forall>h. r_fromPath route = Some h \<longrightarrow>
             fromPath_key rt route opts key val = Inr (call_fromPath rt h d key val route opts)"
      using dec by (simp add: fromPath_key_def)
    have k: "r_fromPath route = None \<Longrightarrow>
        fromPath_key rt route opts key val = defaultFromPath rt d key val route opts"
      using dec by (simp add: fromPath_key_def)
    have c: "fromPath_key rt route opts key val = Inr (parseFloat s)
               \<and> (decimal s \<le> 9007199254740992 \<longrightarrow> parseFloat s = Num (decimal s))"
      if "r_fromPath route = None" "(r_convertNumbers route = Some True
                   \<or> (o_convertNumbers opts = Some True \<and> r_convertNumbers route \<noteq> Some False))
                 \<and> d = Some s \<and> s \<noteq> [] \<and> list_all is_digit s" for s
      using that k parseFloat_exact[of s]
      by (simp add: defaultFromPath_def enabled_def isNumber_def)
    have e: "fromPath_key rt route opts key val = Inr (Str (capitalize s))
               \<and> length (capitalize s) = length s \<and> CHR ''-'' \<notin> set (capitalize s)"
      if "r_fromPath route = None"
        "\<not> (enabled (r_convertNumbers route) (o_convertNumbers opts) \<and> isNumber d)
                 \<and> (r_capitalizedWords route = Some True
                   \<or> (o_capitalizedWords opts = Some True \<and> r_capitalizedWords route \<noteq> Some False))
                 \<and> d = Some s" for s
      using that k capitalize_props[of s] by (auto simp add: defaultFromPath_def enabled_def)
    have g: "fromPath_key rt route opts key val = Inl TypeError"
      if "r_fromPath route = None"
        "(r_capitalizedWords route = Some True
                   \<or> (o_capitalizedWords opts = Some True \<and> r_capitalizedWords route \<noteq> Some False))
              \<and> d = None"
      using that k by (auto simp add: defaultFromPath_def enabled_def isNumber_def)
    have f: "(\<forall>h. o_fromPath opts = Some h \<longrightarrow>
                   fromPath_key rt route opts key val
                     = Inr (call_fromPath rt h d key val route opts))
              \<and> (o_fromPath opts = None \<longrightarrow>
                   fromPath_key rt route opts key val = Inr (str_or_undefined d))"
      if "r_fromPath route = None"
        "\<not> (enabled (r_convertNumbers route) (o_convertNumbers opts) \<and> isNumber d)
              \<and> \<not> enabled (r_capitalizedWords route) (o_capitalizedWords opts)"
      using that k by (auto simp add: defaultFromPath_def)
    from b c e g f show ?thesis by blast
  qed
  from a x y show ?thesis by blast
qed

theorem fromPath_key_precedence_witness:
  "fromPath_key rt0 (route0\<lparr>r_convertNumbers := Some True\<rparr>) opts0 ''id'' (Some ''42'') = Inr (Num 42)
   \<and> fromPath_key rt0 (route0\<lparr>r_capitalizedWords := Some True\<rparr>) opts0 ''c'' (Some ''my-category'')
       = Inr (Str ''My Category'')
   \<and> fromPath_key rt0 (route0\<lparr>r_convertNumbers := Some False\<rparr>)
        (opts0\<lparr>o_convertNumbers := Some True\<rparr>) ''id'' (Some ''42'') = Inr (Str ''42'')
   \<and> fromPath_key rt0 route0 opts0 ''id'' (Some ''50%'') = Inl URIError
   \<and> fromPath_key rt0 route0 opts0 ''id'' None = Inr Undefined
   \<and> parseFloat ''9007199254740993'' = Num 9007199254740992"
proof -
  have d1: "decode rt0 (Some ''42'') = Inr (Some ''42'')" by (simp add: decode_def rt0_def plain_decode_def)
  have d2: "decode rt0 (Some ''my-category'') = Inr (Some ''my-category'')"
    by (simp add: decode_def rt0_def plain_decode_def)
  have d3: "decode rt0 (Some ''50%'') = Inl URIError"
    by (simp add: decode_def rt0_def plain_decode_def)
  have d4: "decode rt0 None = Inr None" by (simp add: decode_def)
  have n: "decimal ''42'' = 42" "list_all is_digit ''42''" "isNumber (Some ''42'')"
    by (simp_all add: decimal_def digit_val_def is_digit_def isNumber_def)
  have c: "capitalize ''my-category'' = ''My Category''"
    by (simp add: capitalize_def is_word_def toUpperCase_def)
  have nn: "\<not> isNumber (Some ''my-category'')" "\<not> isNumber None"
    by (simp_all add: isNumber_def is_digit_def)
  from fromPath_key_precedence[of "Some ''42''" rt0 "route0\<lparr>r_convertNumbers := Some True\<rparr>"
      opts0 "''id''"] d1 n
  have a1: "fromPath_key rt0 (route0\<lparr>r_convertNumbers := Some True\<rparr>) opts0 ''id'' (Some ''42'')
              = Inr (Num 42)"
    by (simp add: route0_def)
  from fromPath_key_precedence[of "Some ''my-category''" rt0
      "route0\<lparr>r_capitalizedWords := Some True\<rparr>" opts0 "''c''"] d2 c nn
  have a2: "fromPath_key rt0 (route0\<lparr>r_capitalizedWords := Some True\<rparr>) opts0 ''c''
              (Some ''my-category'') = Inr (Str ''My Category'')"
    by (simp add: route0_def)
  from fromPath_key_precedence[of "Some ''42''" rt0 "route0\<lparr>r_convertNumbers := Some False\<rparr>"
      "opts0\<lparr>o_convertNumbers := Some True\<rparr>" "''id''"] d1 n
  have a3: "fromPath_key rt0 (route0\<lparr>r_convertNumbers := Some False\<rparr>)
        (opts0\<lparr>o_convertNumbers := Some True\<rparr>) ''id'' (Some ''42'') = Inr (Str ''42'')"
    by (simp add: route0_def opts0_def enabled_def str_or_undefined_def)
  from fromPath_key_precedence[of "Some ''50%''" rt0 route0 opts0 "''id''"] d3
  have a4: "fromPath_key rt0 route0 opts0 ''id'' (Some ''50%'') = Inl URIError" by simp
  from fromPath_key_precedence[of None rt0 route0 opts0 "''id''"] d4 nn
  have a5: "fromPath_key rt0 route0 opts0 ''id'' None = Inr Undefined"
    by (simp add: route0_def opts0_def enabled_def str_or_undefined_def)
  from a1 a2 a3 a4 a5 parseFloat_ties show ?thesis by simp
qed

lemma map_of_spread:
  "distinct (map fst ps) \<Longrightarrow> map_of (spread d ps) = map_of d ++ map_of ps"
  unfolding spread_def
proof (induction ps arbitrary: d)
  case Nil
  then show ?case by simp
next
  case (Cons p ps)
  obtain k v where p: "p = (k, v)" by (cases p)
  from Cons.prems p have nk: "k \<notin> dom (map_of ps)" and dps: "distinct (map fst ps)"
    by (auto simp: dom_map_of_conv_image_fst)
  have ih: "map_of (fold (\<lambda>(k, v). AList.update k v) ps (AList.update k v d))
        = map_of (AList.update k v d) ++ map_of ps"
    by (rule Cons.IH[OF dps])
  have n: "map_of ps k = None" using nk by (simp add: domIff)
  have "(map_of (AList.update k v d) ++ map_of ps) x = (map_of d ++ map_of ((k, v) # ps)) x"
    for x
    using n by (cases "x = k") (auto simp: map_add_def update_conv' split: option.splits)
  then have eq: "map_of (AList.update k v d) ++ map_of ps = map_of d ++ map_of ((k, v) # ps)"
    by (rule ext)
  have f: "fold (\<lambda>(k, v). AList.update k v) (p # ps) d
             = fold (\<lambda>(k, v). AList.update k v) ps (AList.update k v d)"
    using p by simp
  have "map_of (fold (\<lambda>(k, v). AList.update k v) (p # ps) d)
          = map_of (fold (\<lambda>(k, v). AList.update k v) ps (AList.update k v d))"
    by (simp only: f)
  also have "\<dots> = map_of (AList.update k v d) ++ map_of ps" by (rule ih)
  also have "\<dots> = map_of d ++ map_of ((k, v) # ps)" by (rule eq)
  also have "\<dots> = map_of d ++ map_of (p # ps)" by (simp only: p)
  finally show ?case .
qed

lemma fromPath_loop_keys:
  "fromPath_loop rt route opts raw = Inr ps \<Longrightarrow>
   fst ` set ps \<subseteq> fst ` set raw \<and> (distinct (map fst raw) \<longrightarrow> distinct (map fst ps))
   \<and> Undefined \<notin> snd ` set ps"
proof (induction raw arbitrary: ps)
  case Nil
  then show ?case by simp
next
  case (Cons p raw)
  obtain k val where p: "p = (k, val)" by (cases p)
  from Cons.prems p obtain v ps' where
    v: "fromPath_key rt route opts k val = Inr v" and
    l: "fromPath_loop rt route opts raw = Inr ps'" and
    e: "ps = (if v = Undefined then ps' else (k, v) # ps')"
    by (auto split: sum.splits)
  from Cons.IH[OF l] e p show ?case by (auto simp: image_iff)
qed

lemma fromPath_loop_lookup:
  "fromPath_loop rt route opts raw = Inr ps \<Longrightarrow> distinct (map fst raw) \<Longrightarrow>
   (k, val) \<in> set raw \<Longrightarrow> fromPath_key rt route opts k val = Inr v \<Longrightarrow>
   map_of ps k = (if v = Undefined then None else Some v)"
proof (induction raw arbitrary: ps)
  case Nil
  then show ?case by simp
next
  case (Cons p raw)
  obtain k' val' where p: "p = (k', val')" by (cases p)
  from Cons.prems(1) p obtain v' ps' where
    v: "fromPath_key rt route opts k' val' = Inr v'" and
    l: "fromPath_loop rt route opts raw = Inr ps'" and
    e: "ps = (if v' = Undefined then ps' else (k', v') # ps')"
    by (auto split: sum.splits)
  from Cons.prems(2) p have d: "distinct (map fst raw)" and nk: "k' \<notin> fst ` set raw" by auto
  show ?case
  proof (cases "(k, val) = (k', val')")
    case True
    have "k' \<notin> fst ` set ps'" using fromPath_loop_keys[OF l] nk by auto
    then have "map_of ps' k' = None" by (simp add: map_of_eq_None_iff)
    with True v e Cons.prems(4) show ?thesis by auto
  next
    case False
    with Cons.prems(3) p have m: "(k, val) \<in> set raw" by auto
    then have "k \<noteq> k'" using nk by force
    with Cons.IH[OF l d m Cons.prems(4)] e show ?thesis by auto
  qed
qed

text \<open>
  Claim C6: let \<open>ps\<close> be the transformed parameters, the keys whose transform returned
  undefined removed. With a plain object \<open>d\<close> as \<^verbatim>\<open>defaultParams\<close> (the route's, else the
  options') the result is \<^verbatim>\<open>{...d, ...ps}\<close>: every parameter present in \<open>ps\<close> keeps its
  value, every other key has the default's. With a function as \<^verbatim>\<open>defaultParams\<close> the
  result is what the function returns on \<open>(ps, route, opts)\<close>. A key whose transform
  returned undefined is absent from \<open>ps\<close>, so the default supplies it.
\<close>

theorem defaults_fill_gaps:
  assumes "fromPath_loop rt route opts raw = Inr ps" and "distinct (map fst raw)"
  shows "(\<forall>d. r_defaultParams route = Some (DefVal d)
               \<or> (r_defaultParams route = None \<and> o_defaultParams opts = Some (DefVal d)) \<longrightarrow>
             fromPath rt raw route opts = Inr (spread d ps)
             \<and> map_of (spread d ps) = map_of d ++ map_of ps
             \<and> (\<forall>k v. map_of ps k = Some v \<longrightarrow> map_of (spread d ps) k = Some v)
             \<and> (\<forall>k. map_of ps k = None \<longrightarrow> map_of (spread d ps) k = map_of d k))
       \<and> (\<forall>h. r_defaultParams route = Some (DefFn h)
               \<or> (r_defaultParams route = None \<and> o_defaultParams opts = Some (DefFn h)) \<longrightarrow>
             fromPath rt raw route opts = Inr (call_defaultObj rt h ps route opts))
       \<and> (r_defaultParams route = None \<and> o_defaultParams opts = None \<longrightarrow>
             fromPath rt raw route opts = Inr ps)
       \<and> (\<forall>k val v. (k, val) \<in> set raw \<and> fromPath_key rt route opts k val = Inr v \<longrightarrow>
             map_of ps k = (if v = Undefined then None else Some v))"
proof -
  have dps: "distinct (map fst ps)" using fromPath_loop_keys[OF assms(1)] assms(2) by simp
  have a: "fromPath rt raw route opts = Inr (spread d ps)
             \<and> map_of (spread d ps) = map_of d ++ map_of ps
             \<and> (\<forall>k v. map_of ps k = Some v \<longrightarrow> map_of (spread d ps) k = Some v)
             \<and> (\<forall>k. map_of ps k = None \<longrightarrow> map_of (spread d ps) k = map_of d k)"
    if "r_defaultParams route = Some (DefVal d)
               \<or> (r_defaultParams route = None \<and> o_defaultParams opts = Some (DefVal d))" for d
    using that assms(1) map_of_spread[OF dps, of d]
    by (auto simp: fromPath_def with_default_def map_add_def)
  have b: "fromPath rt raw route opts = Inr (call_defaultObj rt h ps route opts)"
    if "r_defaultParams route = Some (DefFn h)
               \<or> (r_defaultParams route = None \<and> o_defaultParams opts = Some (DefFn h))" for h
    using that assms(1) by (auto simp: fromPath_def with_default_def)
  have c: "r_defaultParams route = None \<and> o_defaultParams opts = None \<longrightarrow>
             fromPath rt raw route opts = Inr ps"
    using assms(1) by (auto simp: fromPath_def with_default_def)
  have d: "map_of ps k = (if v = Undefined then None else Some v)"
    if "(k, val) \<in> set raw \<and> fromPath_key rt route opts k val = Inr v" for k val v
    using fromPath_loop_lookup[OF assms(1,2)] that by blast
  from a b c d show ?thesis by blast
qed

theorem defaults_fill_gaps_witness:
  "fromPath rt0 [(''name'', None), (''id'', Some ''7'')]
      (route0\<lparr>r_defaultParams := Some (DefVal [(''name'', Str ''all''), (''id'', Str ''0'')])\<rparr>) opts0
     = Inr [(''name'', Str ''all''), (''id'', Str ''7'')]
   \<and> fromPath rt0 [(''name'', None), (''id'', Some ''7'')]
      (route0\<lparr>r_defaultParams := Some (DefFn (Fixed [(''x'', Num 1)]))\<rparr>) opts0
     = Inr [(''x'', Num 1)]"
proof -
  have a: "fromPath_loop rt0 (route0\<lparr>r_defaultParams := Some (DefVal [(''name'', Str ''all''), (''id'', Str ''0'')])\<rparr>)
            opts0 [(''name'', None), (''id'', Some ''7'')] = Inr [(''id'', Str ''7'')]"
    by (simp add: ev)
  have b: "fromPath_loop rt0 (route0\<lparr>r_defaultParams := Some (DefFn (Fixed [(''x'', Num 1)]))\<rparr>)
            opts0 [(''name'', None), (''id'', Some ''7'')] = Inr [(''id'', Str ''7'')]"
    by (simp add: ev)
  have d: "distinct (map fst [(''name'', None :: string option), (''id'', Some ''7'')])" by simp
  from defaults_fill_gaps[OF a d] defaults_fill_gaps[OF b d] show ?thesis
    by (simp add: ev)
qed

text \<open>
  Claim C7, as stated, fails for an unmatched URL with a search string when neither the
  \<^verbatim>\<open>NOT_FOUND\<close> route nor the options carry \<^verbatim>\<open>parseQuery\<close>: the call throws.
\<close>

theorem not_found_without_hook_throws:
  "urlToAction rt0 (Url ''/nope?a=1'')
     [(''HOME'', route0\<lparr>r_path := Some ''/''\<rparr>),
      (''NOT_FOUND'', route0\<lparr>r_path := Some ''/not-found''\<rparr>)] opts0 [] = Inl TypeError
   \<and> urlToAction rt0 (Url ''/nope?a=1'') [(''HOME'', route0\<lparr>r_path := Some ''/''\<rparr>)]
       (opts0\<lparr>o_parseQuery := Some Whole\<rparr>) [] = Inl TypeError"
proof -
  let ?l = "\<lparr>l_pathname = ''/nope'', l_search = ''a=1'', l_hash = []\<rparr>"
  let ?r1 = "[(''HOME'', route0\<lparr>r_path := Some ''/''\<rparr>),
      (''NOT_FOUND'', route0\<lparr>r_path := Some ''/not-found''\<rparr>)]"
  let ?r2 = "[(''HOME'', route0\<lparr>r_path := Some ''/''\<rparr>)]"
  have l: "?l = urlToLocation rt0 (replace_first (received_basename (Url ''/nope?a=1''))
              (received_url (Url ''/nope?a=1'')))"
    by (simp add: received_basename_def received_url_def rt0_def split_url_def)
  have f1: "[''HOME'', ''NOT_FOUND''] = filter (has_path ?r1) (object_keys (map fst ?r1))"
    by (simp add: has_path_def route0_def object_keys_def array_index_def is_digit_def)
  have f2: "[''HOME''] = filter (has_path ?r2) (object_keys (map fst ?r2))"
    by (simp add: has_path_def route0_def object_keys_def array_index_def is_digit_def)
  have m1: "matchUrl rt0 ?l (route0\<lparr>r_path := Some ''/''\<rparr>) x = Inr None" for x
    by (simp add: mp)
  have m2: "matchUrl rt0 ?l (route0\<lparr>r_path := Some ''/not-found''\<rparr>) x = Inr None" for x
    by (simp add: mp)
  have ml1: "match_loop rt0 ?l ?r1 opts0 b st [''HOME'', ''NOT_FOUND''] = Inr None" for b st
    by (simp add: m1 m2)
  have ml2: "match_loop rt0 ?l ?r2 x b st [''HOME''] = Inr None" for b st x
    by (simp add: m1)
  have p1: "parseQuery rt0 ''a=1'' ?r1 opts0 = Inl TypeError"
    by (simp add: parseQuery_def route0_def opts0_def)
  have p2: "parseQuery rt0 ''a=1'' ?r2 x = Inl TypeError" for x
    by (simp add: parseQuery_def)
  have a: "urlToAction rt0 (Url ''/nope?a=1'') ?r1 opts0 [] = Inl TypeError"
    unfolding urlToAction_cases[OF l f1] ml1 by (simp add: p1)
  have b: "urlToAction rt0 (Url ''/nope?a=1'') ?r2 (opts0\<lparr>o_parseQuery := Some Whole\<rparr>) []
             = Inl TypeError"
    unfolding urlToAction_cases[OF l f2] ml2 by (simp add: p2)
  from a b show ?thesis by simp
qed

text \<open>
  Claim C7, amended: for a URL that matches no route with a path, and provided that,
  when the URL has a search string, the table has the route \<^verbatim>\<open>NOT_FOUND\<close> and that
  route or the options carry \<^verbatim>\<open>parseQuery\<close>, the translator returns the action whose
  type is \<^verbatim>\<open>${scene}/NOT_FOUND\<close> if the table has that type and \<^verbatim>\<open>NOT_FOUND\<close> otherwise,
  whose params are empty, whose query is the hook's result on the search string (empty
  without a search string), whose hash is the location's hash and whose state is the
  inbound state.
\<close>

theorem not_found_action:
  assumes loc: "l = urlToLocation rt (replace_first (received_basename loc) (received_url loc))"
    and nomatch: "\<forall>k\<in>set (filter (has_path routes) (map fst routes)).
                    \<forall>r. map_of routes k = Some r \<longrightarrow> matchPattern rt l r = None"
    and hook: "l_search l \<noteq> [] \<longrightarrow>
                 (\<exists>nf. map_of routes ''NOT_FOUND'' = Some nf
                   \<and> (case r_parseQuery nf of Some h' \<Rightarrow> Some h' | None \<Rightarrow> o_parseQuery opts)
                       = Some h)"
  shows "urlToAction rt loc routes opts scene =
           Inr \<lparr>ra_type = (if map_of routes (scene @ ''/NOT_FOUND'') \<noteq> None
                            then scene @ ''/NOT_FOUND'' else ''NOT_FOUND''),
                ra_params = [],
                ra_query = (if l_search l \<noteq> [] then call_parseQuery rt h (l_search l) else []),
                ra_hash = l_hash l, ra_basename = received_basename loc,
                ra_state = received_state loc\<rparr>"
proof -
  let ?types = "filter (has_path routes) (object_keys (map fst routes))"
  have "\<forall>k\<in>set ?types. \<exists>r. map_of routes k = Some r \<and> matchPattern rt l r = None"
  proof
    fix k assume k: "k \<in> set ?types"
    then have hp: "has_path routes k" by simp
    from k have "k \<in> set (filter (has_path routes) (map fst routes))"
      using set_object_keys[of "map fst routes"] by (simp del: set_map)
    moreover from hp obtain r where r: "map_of routes k = Some r" using has_path_route by blast
    ultimately show "\<exists>r. map_of routes k = Some r \<and> matchPattern rt l r = None"
      using nomatch by blast
  qed
  from match_loop_skip[OF this, of opts "received_basename loc" "received_state loc" "[]"]
  have ml: "match_loop rt l routes opts (received_basename loc) (received_state loc) ?types
              = Inr None"
    by simp
  show ?thesis
  proof (cases "l_search l = []")
    case True
    then show ?thesis unfolding urlToAction_cases[OF loc refl] ml by simp
  next
    case False
    with hook obtain nf where "map_of routes ''NOT_FOUND'' = Some nf"
      "(case r_parseQuery nf of Some h' \<Rightarrow> Some h' | None \<Rightarrow> o_parseQuery opts) = Some h"
      by blast
    then have "parseQuery rt (l_search l) routes opts = Inr (call_parseQuery rt h (l_search l))"
      by (simp add: parseQuery_def)
    with False show ?thesis unfolding urlToAction_cases[OF loc refl] ml by simp
  qed
qed

theorem not_found_action_witness:
  "urlToAction rt0 (Loc ''/app/nope?a=1#top'' (Some ''/app'') (Some [(''from'', Str ''link'')]))
       routes0 opts0 ''admin'' =
     Inr \<lparr>ra_type = ''NOT_FOUND'', ra_params = [], ra_query = [(''q'', Str ''a=1'')],
          ra_hash = ''top'', ra_basename = ''/app'', ra_state = [(''from'', Str ''link'')]\<rparr>
   \<and> urlToAction rt0 (Url ''/nope'')
       ((''admin/NOT_FOUND'', route0) # routes0) opts0 ''admin'' =
     Inr \<lparr>ra_type = ''admin/NOT_FOUND'', ra_params = [], ra_query = [],
          ra_hash = [], ra_basename = [], ra_state = []\<rparr>"
proof -
  have l1: "\<lparr>l_pathname = ''/nope'', l_search = ''a=1'', l_hash = ''top''\<rparr>
           = urlToLocation rt0 (replace_first
               (received_basename (Loc ''/app/nope?a=1#top'' (Some ''/app'') (Some [(''from'', Str ''link'')])))
               (received_url (Loc ''/app/nope?a=1#top'' (Some ''/app'') (Some [(''from'', Str ''link'')]))))"
    by (simp add: ev)
  have n1: "\<forall>k\<in>set (filter (has_path routes0) (map fst routes0)).
              \<forall>r. map_of routes0 k = Some r \<longrightarrow>
                matchPattern rt0 \<lparr>l_pathname = ''/nope'', l_search = ''a=1'', l_hash = ''top''\<rparr> r = None"
    by (simp add: ev)
  have h1: "l_search \<lparr>l_pathname = ''/nope'', l_search = ''a=1'', l_hash = ''top''\<rparr> \<noteq> [] \<longrightarrow>
       (\<exists>nf. map_of routes0 ''NOT_FOUND'' = Some nf
           \<and> (case r_parseQuery nf of Some h' \<Rightarrow> Some h' | None \<Rightarrow> o_parseQuery opts0) = Some Whole)"
    by (simp add: ev)
  have l2: "\<lparr>l_pathname = ''/nope'', l_search = [], l_hash = []\<rparr>
           = urlToLocation rt0 (replace_first (received_basename (Url ''/nope''))
               (received_url (Url ''/nope'')))"
    by (simp add: ev)
  have n2: "\<forall>k\<in>set (filter (has_path ((''admin/NOT_FOUND'', route0) # routes0))
                        (map fst ((''admin/NOT_FOUND'', route0) # routes0))).
              \<forall>r. map_of ((''admin/NOT_FOUND'', route0) # routes0) k = Some r \<longrightarrow>
                matchPattern rt0 \<lparr>l_pathname = ''/nope'', l_search = [], l_hash = []\<rparr> r = None"
    by (simp add: ev)
  have h2: "l_search \<lparr>l_pathname = ''/nope'', l_search = [], l_hash = []\<rparr> \<noteq> [] \<longrightarrow>
       (\<exists>nf. map_of ((''admin/NOT_FOUND'', route0) # routes0) ''NOT_FOUND'' = Some nf
           \<and> (case r_parseQuery nf of Some h' \<Rightarrow> Some h' | None \<Rightarrow> o_parseQuery opts0) = Some Whole)"
    by simp
  from not_found_action[OF l1 n1 h1, of "''admin''"]
    not_found_action[OF l2 n2 h2, of "''admin''"]
  show ?thesis by (simp add: ev)
qed

text \<open>
  Claim C8: no exception escapes the translator. On the route \<^verbatim>\<open>/cat/:name?\<close> with
  \<^verbatim>\<open>capitalizedWords\<close> and the URL \<^verbatim>\<open>/cat\<close>, the parameter is undefined, \<^verbatim>\<open>fromPath\<close>
  skips decoding it, and \<^verbatim>\<open>defaultFromPath\<close> calls \<^verbatim>\<open>replace\<close> on it: a TypeError.
\<close>

theorem optional_param_capitalize_throws:
  "urlToAction rt0 (Url ''/cat'') routes0 opts0 [] = Inl TypeError
   \<and> matchPattern rt0 (urlToLocation rt0 ''/cat'')
        (route0\<lparr>r_path := Some ''/cat/:name?'', r_capitalizedWords := Some True\<rparr>)
       = Some \<lparr>m_params = [(''name'', None)], m_query = [], m_hash = []\<rparr>
   \<and> defaultFromPath rt0 None ''name'' None
        (route0\<lparr>r_path := Some ''/cat/:name?'', r_capitalizedWords := Some True\<rparr>) opts0
       = Inl TypeError"
proof -
  let ?l = "\<lparr>l_pathname = ''/cat'', l_search = [], l_hash = []\<rparr>"
  let ?cat = "route0\<lparr>r_path := Some ''/cat/:name?'', r_capitalizedWords := Some True\<rparr>"
  have l0: "urlToLocation rt0 ''/cat'' = ?l"
    by (simp add: rt0_def split_url_def)
  have l: "?l = urlToLocation rt0 (replace_first (received_basename (Url ''/cat''))
              (received_url (Url ''/cat'')))"
    by (simp add: received_basename_def received_url_def rt0_def split_url_def)
  have f: "[''HOME'', ''CAT'', ''ITEM'', ''THING'', ''NOT_FOUND'']
             = filter (has_path routes0) (object_keys (map fst routes0))"
    by (simp add: has_path_def routes0_def route0_def object_keys_def array_index_def is_digit_def)
  have m1: "matchUrl rt0 ?l (route0\<lparr>r_path := Some ''/''\<rparr>) opts0 = Inr None"
    by (simp add: mp)
  have mc: "matchPattern rt0 ?l ?cat
       = Some \<lparr>m_params = [(''name'', None)], m_query = [], m_hash = []\<rparr>"
    by (simp add: mp)
  have d: "defaultFromPath rt0 None ''name'' None ?cat opts0 = Inl TypeError"
    by (simp add: defaultFromPath_def enabled_def isNumber_def route0_def)
  have rf: "r_fromPath ?cat = None" by (simp add: route0_def)
  have m2: "matchUrl rt0 ?l ?cat opts0 = Inl TypeError"
    by (simp add: matchUrl_def mc fromPath_def fromPath_key_def decode_def rf d)
  have ml: "match_loop rt0 ?l routes0 opts0 b st [''HOME'', ''CAT'', ''ITEM'', ''THING'', ''NOT_FOUND'']
              = Inl TypeError" for b st
    using m1 m2 by (simp add: routes0_def)
  have a: "urlToAction rt0 (Url ''/cat'') routes0 opts0 [] = Inl TypeError"
    unfolding urlToAction_cases[OF l f] ml by simp
  from a mc d l0 show ?thesis by simp
qed

end
